theory Spec2Isabelle
  imports Main
begin

section \<open>Data model\<close>

text \<open>
  Modelled from the spec: the \<open>Room\<close> and \<open>Player\<close> types of \<open>types/multiplayer\<close>, which the
  screens import and whose declaration is not among the sources. The fields are the ones the
  screens read. A team is \<open>1 | 2 | null\<close>; \<open>round_start_time\<close> is the timestamp string of the
  row, kept here as the milliseconds \<open>new Date(...).getTime()\<close> reads from it, and absent when
  the field is falsy.

  A JavaScript string is a sequence of UTF-16 code units. The strings the program looks into
  (the chat input and the secret word) are lists of code units; the strings it only passes on
  (names, ids, colours, alert texts) are kept as HOL strings.
\<close>

type_synonym jsstring = "nat list"

datatype room_status = Waiting | Playing | Ended

record RoomSettings =
  timer_seconds :: int
  allow_tag_team :: bool

record Room =
  code :: string
  status :: room_status
  settings :: RoomSettings
  current_round :: int
  current_word :: "jsstring option"
  drawing_team :: "nat option"
  round_start_time :: "int option"

record Player =
  id_p :: string
  name :: string
  team :: "nat option"
  is_host :: bool
  is_ready :: bool
  is_drawing :: bool
  score :: int

section \<open>App.multiplayer.tsx: MultiplayerApp\<close>

text \<open>
  What \<open>useMultiplayer()\<close> hands to the component (lines 25-44): the room, the players, the
  current player and the latest error. The hook itself is not among the sources; the functions
  it returns are parameters of the handlers below, acting on this part of the state.
\<close>

record Hook =
  room :: "Room option"
  players :: "Player list"
  currentPlayer :: "Player option"
  error :: "string option"

datatype Screen = Home | Create | Join | Lobby | Game

datatype hook_call = CreateRoom string | JoinRoom string string | StartGame | EndRound

text \<open>
  The component's own state (\<open>screen\<close>, \<open>timeRemaining\<close>, whether \<open>timerRef\<close> holds an interval),
  the number of press animations of the lobby's start button that are still to call their
  completion callback, the hook's state, and what the component did to the outside: the alerts
  it showed (title, message) and the hook functions it called, in order.
\<close>

record MultiplayerApp =
  screen :: Screen
  timeRemaining :: int
  timerRef :: bool
  startPending :: nat
  hook :: Hook
  alerts :: "(string \<times> string) list"
  calls :: "hook_call list"

definition transitionTo :: "Screen \<Rightarrow> MultiplayerApp \<Rightarrow> MultiplayerApp" where
  "transitionTo newScreen a = a\<lparr>screen := newScreen\<rparr>"

text \<open>\<open>currentPlayer?.is_host\<close> as a condition\<close>

definition isHost :: "Player option \<Rightarrow> bool" where
  "isHost cp = (case cp of None \<Rightarrow> False | Some p \<Rightarrow> is_host p)"

text \<open>
  Lines 73-80, the value given to \<open>setTimeRemaining\<close> when the timer effect runs at wall-clock
  time \<open>now\<close> (\<open>Date.now()\<close>, milliseconds). \<open>Math.floor(x / 1000)\<close> on integers is \<open>div\<close>.
\<close>

definition remainingAt :: "Room \<Rightarrow> int \<Rightarrow> int" where
  "remainingAt r now =
     (case round_start_time r of
        Some startTime \<Rightarrow>
          (let elapsed = (now - startTime) div 1000;
               remaining = max 0 (timer_seconds (settings r) - elapsed)
           in remaining)
      | None \<Rightarrow> timer_seconds (settings r))"

text \<open>
  Lines 63-101, the timer effect, run at time \<open>now\<close>: outside \<open>playing\<close> it clears the interval and
  returns; otherwise it sets the countdown and installs the interval (the clean-up of the
  previous run has cleared the old one).
\<close>

definition timerEffect :: "int \<Rightarrow> MultiplayerApp \<Rightarrow> MultiplayerApp" where
  "timerEffect now a =
     (case room (hook a) of
        None \<Rightarrow> a\<lparr>timerRef := False\<rparr>
      | Some r \<Rightarrow>
          if status r \<noteq> Playing then a\<lparr>timerRef := False\<rparr>
          else a\<lparr>timeRemaining := remainingAt r now, timerRef := True\<rparr>)"

text \<open>
  Lines 82-93, one firing of the interval callback. It exists only while \<open>timerRef\<close> holds an
  interval, which the effect installs only in \<open>playing\<close>, where the room is present. The callback
  does not read the clock. \<open>endRound\<close> is the hook's function.
\<close>

definition intervalTick :: "(Hook \<Rightarrow> Hook) \<Rightarrow> MultiplayerApp \<Rightarrow> MultiplayerApp" where
  "intervalTick endRound a =
     (if \<not> timerRef a then a
      else case room (hook a) of
        None \<Rightarrow> a
      | Some r \<Rightarrow>
          let prev = timeRemaining a in
          if prev \<le> 1 then
            (if isHost (currentPlayer (hook a))
             then a\<lparr>hook := endRound (hook a), calls := calls a @ [EndRound],
                    timeRemaining := timer_seconds (settings r)\<rparr>
             else a\<lparr>timeRemaining := timer_seconds (settings r)\<rparr>)
          else a\<lparr>timeRemaining := prev - 1\<rparr>)"

text \<open>
  Lines 121-144. \<open>isSupabaseConfigured()\<close> comes from \<open>lib/supabase\<close>, which is not among the
  sources: its result is the parameter \<open>configured\<close>. \<open>createRoom\<close> and \<open>joinRoom\<close> are the hook's
  functions; the handlers return what they return.
\<close>

definition handleCreateRoom ::
  "bool \<Rightarrow> (string \<Rightarrow> Hook \<Rightarrow> 'r option \<times> Hook) \<Rightarrow> string \<Rightarrow> MultiplayerApp
     \<Rightarrow> 'r option \<times> MultiplayerApp" where
  "handleCreateRoom configured createRoom playerName a =
     (if \<not> configured then
        (None, a\<lparr>alerts := alerts a @ [(''Setup Required'',
           ''Multiplayer requires Supabase configuration. Please add your Supabase URL and anon key to the environment.'')]\<rparr>)
      else
        (let (res, h) = createRoom playerName (hook a)
         in (res, a\<lparr>hook := h, calls := calls a @ [CreateRoom playerName]\<rparr>)))"

definition handleJoinRoom ::
  "bool \<Rightarrow> (string \<Rightarrow> string \<Rightarrow> Hook \<Rightarrow> bool \<times> Hook) \<Rightarrow> string \<Rightarrow> string \<Rightarrow> MultiplayerApp
     \<Rightarrow> bool \<times> MultiplayerApp" where
  "handleJoinRoom configured joinRoom roomCode playerName a =
     (if \<not> configured then
        (False, a\<lparr>alerts := alerts a @ [(''Setup Required'',
           ''Multiplayer requires Supabase configuration.'')]\<rparr>)
      else
        (let (res, h) = joinRoom roomCode playerName (hook a)
         in (res, a\<lparr>hook := h, calls := calls a @ [JoinRoom roomCode playerName]\<rparr>)))"

text \<open>Lines 166-169: \<open>startGame(); transitionTo('game')\<close>.\<close>

definition handleStartGame :: "(Hook \<Rightarrow> Hook) \<Rightarrow> MultiplayerApp \<Rightarrow> MultiplayerApp" where
  "handleStartGame startGame a =
     transitionTo Game (a\<lparr>hook := startGame (hook a), calls := calls a @ [StartGame]\<rparr>)"

section \<open>LobbyScreen\<close>

text \<open>Lines 35-39 (and 579-583 of the second copy, which are the same).\<close>

definition team1Players :: "Player list \<Rightarrow> Player list" where
  "team1Players ps = filter (\<lambda>p. team p = Some 1) ps"

definition team2Players :: "Player list \<Rightarrow> Player list" where
  "team2Players ps = filter (\<lambda>p. team p = Some 2) ps"

definition allReady :: "Player list \<Rightarrow> bool" where
  "allReady ps = (length ps \<ge> 2 \<and> list_all is_ready ps)"

definition canStart :: "Player list \<Rightarrow> Player option \<Rightarrow> bool" where
  "canStart ps cp =
     (isHost cp \<and> allReady ps \<and> length (team1Players ps) \<ge> 1 \<and> length (team2Players ps) \<ge> 1)"

text \<open>\<open>currentPlayer?.team\<close> as a condition: a team that is present and not 0.\<close>

definition hasTeam :: "Player option \<Rightarrow> bool" where
  "hasTeam cp =
     (case cp of None \<Rightarrow> False
      | Some p \<Rightarrow> (case team p of None \<Rightarrow> False | Some t \<Rightarrow> t \<noteq> 0))"

text \<open>
  The start button of the bottom actions: rendered for a host who has a team, with
  \<open>disabled={!canStart}\<close>.
\<close>

datatype button = Absent | Disabled | Enabled

definition startButton :: "Player list \<Rightarrow> Player option \<Rightarrow> button" where
  "startButton ps cp =
     (if hasTeam cp \<and> isHost cp then (if canStart ps cp then Enabled else Disabled) else Absent)"

text \<open>
  A press on the lobby's start button. The lobby is rendered on screen \<open>lobby\<close> with a room and a
  current player; a disabled or absent button does not fire \<open>onPress\<close>; an enabled one runs
  \<open>handleStartPress\<close> (lines 128-134, and 674-680 of the second copy), which starts the press animation and hands it
  \<open>onStartGame\<close> as its completion callback. Nothing else happens at the press.
\<close>

definition pressStart :: "MultiplayerApp \<Rightarrow> MultiplayerApp" where
  "pressStart a =
     (if screen a = Lobby \<and> room (hook a) \<noteq> None \<and> currentPlayer (hook a) \<noteq> None
         \<and> startButton (players (hook a)) (currentPlayer (hook a)) = Enabled
      then a\<lparr>startPending := startPending a + 1\<rparr>
      else a)"

text \<open>
  The end of a press animation: its completion callback \<open>onStartGame\<close>, that is
  \<open>handleStartGame\<close>, runs on the state the client holds by then, with no second look at
  \<open>canStart\<close>.
\<close>

definition startAnimationEnd :: "(Hook \<Rightarrow> Hook) \<Rightarrow> MultiplayerApp \<Rightarrow> MultiplayerApp" where
  "startAnimationEnd startGame a =
     (if 0 < startPending a
      then handleStartGame startGame (a\<lparr>startPending := startPending a - 1\<rparr>)
      else a)"

text \<open>
  Modelled from the spec: \<open>startGame\<close> of the \<open>useMultiplayer\<close> hook, which is not among the
  sources. Sections 4.3 and 7: the transition is triggered by the host, gated by at least 2
  players, every player ready and both teams non-empty; it makes team 1 the drawing team,
  selects a drawer, assigns a word and stamps \<open>round_start_time\<close>; attempted otherwise it leaves
  the status and puts \<open>PreconditionFailed\<close> in the error slot. The drawer, the word and the time
  are parameters.
\<close>

definition startPreconditions :: "Hook \<Rightarrow> bool" where
  "startPreconditions h =
     (isHost (currentPlayer h) \<and> length (players h) \<ge> 2 \<and> list_all is_ready (players h)
      \<and> filter (\<lambda>p. team p = Some 1) (players h) \<noteq> []
      \<and> filter (\<lambda>p. team p = Some 2) (players h) \<noteq> [])"

definition startGame_spec :: "string \<Rightarrow> jsstring \<Rightarrow> int \<Rightarrow> Hook \<Rightarrow> Hook" where
  "startGame_spec drawer word now h =
     (case room h of
        None \<Rightarrow> h
      | Some r \<Rightarrow>
          if status r = Waiting \<and> startPreconditions h then
            h\<lparr>room := Some (r\<lparr>status := Playing, current_word := Some word,
                               drawing_team := Some 1, round_start_time := Some now\<rparr>),
              players := map (\<lambda>p. p\<lparr>is_drawing := (id_p p = drawer)\<rparr>) (players h)\<rparr>
          else h\<lparr>error := Some ''PreconditionFailed''\<rparr>)"

section \<open>MultiplayerGameScreen\<close>

text \<open>
  A point is the pair of its coordinates; the coordinates are JavaScript numbers on which the
  screen does no arithmetic, so their type is the parameter \<open>'n\<close>. The \<open>id\<close> of a local path is
  the string \<open>local_\<close> followed by \<open>Date.now()\<close>, kept here as that number.
\<close>

record 'n LocalPath =
  id_l :: int
  points :: "('n \<times> 'n) list"
  color :: string
  brushSize :: int

datatype event_type = EvStart | EvMove | EvEnd | EvClear | EvUndo

record 'n DrawingEvent =
  type_e :: event_type
  xy_e :: "('n \<times> 'n) option"
  color_e :: string
  brushSize_e :: int
  timestamp :: int

text \<open>
  The props the handlers read (\<open>room\<close>, \<open>currentPlayer\<close>), the component's state, and the calls
  of \<open>onSendDrawing\<close> and \<open>onSendChat\<close> it made, in order.

  The handlers are \<open>useCallback\<close> closures: each reads \<open>currentPath\<close>, \<open>selectedColor\<close>, \<open>brushSize\<close>
  and \<open>chatInput\<close> as they were at the last render, not as they are now. The fields ending in
  \<open>_c\<close> hold these captured values; \<open>render\<close> brings them up to date. A \<open>setState\<close> call with a
  value or with an updater \<open>prev => ...\<close> acts on the state as it is now.
\<close>

record 'n GameScreen =
  room_g :: Room
  currentPlayer_g :: "Player option"
  localPaths :: "'n LocalPath list"
  currentPath :: "'n LocalPath option"
  selectedColor :: string
  brushSize_g :: int
  chatInput :: jsstring
  currentPath_c :: "'n LocalPath option"
  selectedColor_c :: string
  brushSize_c :: int
  chatInput_c :: jsstring
  sentDrawing :: "'n DrawingEvent list"
  sentChat :: "jsstring list"

definition render :: "'n GameScreen \<Rightarrow> 'n GameScreen" where
  "render s =
     s\<lparr>currentPath_c := currentPath s, selectedColor_c := selectedColor s,
       brushSize_c := brushSize_g s, chatInput_c := chatInput s\<rparr>"

text \<open>Line 83, \<open>currentPlayer?.is_drawing\<close>, and line 86, \<open>myTeam && myTeam !== drawingTeam\<close>.\<close>

definition isDrawing :: "'n GameScreen \<Rightarrow> bool" where
  "isDrawing s = (case currentPlayer_g s of None \<Rightarrow> False | Some p \<Rightarrow> is_drawing p)"

definition isGuessingTeam :: "'n GameScreen \<Rightarrow> bool" where
  "isGuessingTeam s =
     (case currentPlayer_g s of None \<Rightarrow> False
      | Some p \<Rightarrow> (case team p of None \<Rightarrow> False
                   | Some t \<Rightarrow> t \<noteq> 0 \<and> Some t \<noteq> drawing_team (room_g s)))"

text \<open>
  Lines 146-212. \<open>now\<close> is \<open>Date.now()\<close>. \<open>handleTouchMove\<close> tests the captured \<open>currentPath\<close> and
  appends the point through an updater; \<open>handleTouchEnd\<close> tests the captured \<open>currentPath\<close> and
  appends that captured value to \<open>localPaths\<close>.
\<close>

definition handleTouchStart :: "int \<Rightarrow> 'n \<times> 'n \<Rightarrow> 'n GameScreen \<Rightarrow> 'n GameScreen" where
  "handleTouchStart now pt s =
     (if \<not> isDrawing s then s
      else
        let newPath = \<lparr>id_l = now, points = [pt], color = selectedColor_c s,
                       brushSize = brushSize_c s\<rparr>
        in s\<lparr>currentPath := Some newPath,
             sentDrawing := sentDrawing s @
               [\<lparr>type_e = EvStart, xy_e = Some pt, color_e = selectedColor_c s,
                 brushSize_e = brushSize_c s, timestamp = now\<rparr>]\<rparr>)"

definition handleTouchMove :: "int \<Rightarrow> 'n \<times> 'n \<Rightarrow> 'n GameScreen \<Rightarrow> 'n GameScreen" where
  "handleTouchMove now pt s =
     (if \<not> isDrawing s \<or> currentPath_c s = None then s
      else
        s\<lparr>currentPath :=
            (case currentPath s of
               None \<Rightarrow> None
             | Some prev \<Rightarrow> Some (prev\<lparr>points := points prev @ [pt]\<rparr>)),
          sentDrawing := sentDrawing s @
            [\<lparr>type_e = EvMove, xy_e = Some pt, color_e = selectedColor_c s,
              brushSize_e = brushSize_c s, timestamp = now\<rparr>]\<rparr>)"

definition handleTouchEnd :: "int \<Rightarrow> 'n GameScreen \<Rightarrow> 'n GameScreen" where
  "handleTouchEnd now s =
     (if \<not> isDrawing s then s
      else case currentPath_c s of
        None \<Rightarrow> s
      | Some captured \<Rightarrow>
          s\<lparr>localPaths := localPaths s @ [captured],
            currentPath := None,
            sentDrawing := sentDrawing s @
              [\<lparr>type_e = EvEnd, xy_e = None, color_e = selectedColor_c s,
                brushSize_e = brushSize_c s, timestamp = now\<rparr>]\<rparr>)"

text \<open>
  \<open>Array.prototype.slice(start, end)\<close>: a negative index counts from the end, and both are
  clamped to the array.
\<close>

definition js_index :: "nat \<Rightarrow> int \<Rightarrow> nat" where
  "js_index len k = (if k < 0 then nat (max (int len + k) 0) else min (nat k) len)"

definition js_slice :: "'a list \<Rightarrow> int \<Rightarrow> int \<Rightarrow> 'a list" where
  "js_slice xs start fin =
     (let from = js_index (length xs) start; to = js_index (length xs) fin
      in take (to - from) (drop from xs))"

text \<open>Lines 215-237.\<close>

definition handleClear :: "int \<Rightarrow> 'n GameScreen \<Rightarrow> 'n GameScreen" where
  "handleClear now s =
     s\<lparr>localPaths := [], currentPath := None,
       sentDrawing := sentDrawing s @
         [\<lparr>type_e = EvClear, xy_e = None, color_e = selectedColor_c s,
           brushSize_e = brushSize_c s, timestamp = now\<rparr>]\<rparr>"

definition handleUndo :: "int \<Rightarrow> 'n GameScreen \<Rightarrow> 'n GameScreen" where
  "handleUndo now s =
     s\<lparr>localPaths := js_slice (localPaths s) 0 (- 1),
       sentDrawing := sentDrawing s @
         [\<lparr>type_e = EvUndo, xy_e = None, color_e = selectedColor_c s,
           brushSize_e = brushSize_c s, timestamp = now\<rparr>]\<rparr>"

text \<open>
  Lines 253-261, the SVG path of a stroke. \<open>str\<close> is the conversion of a number to a string in
  a template literal.
\<close>

definition pointsToPath :: "('n \<Rightarrow> string) \<Rightarrow> ('n \<times> 'n) list \<Rightarrow> string" where
  "pointsToPath str pts =
     (case pts of
        [] \<Rightarrow> []
      | first # rest \<Rightarrow>
          fold (\<lambda>point d. d @ '' L '' @ str (fst point) @ '' '' @ str (snd point)) rest
            (''M '' @ str (fst first) @ '' '' @ str (snd first)))"

text \<open>
  \<open>String.prototype.trim\<close> removes the leading and trailing code units that are white space or
  line terminators: tab, line feed, vertical tab, form feed, carriage return, space, no-break
  space, U+1680, U+2000 to U+200A, U+2028, U+2029, U+202F, U+205F, U+3000 and U+FEFF.
\<close>

definition isWhiteSpace :: "nat \<Rightarrow> bool" where
  "isWhiteSpace u =
     (u \<in> set [0x09, 0x0A, 0x0B, 0x0C, 0x0D, 0x20, 0xA0, 0x1680, 0x2028, 0x2029, 0x202F,
                0x205F, 0x3000, 0xFEFF]
      \<or> (0x2000 \<le> u \<and> u \<le> 0x200A))"

definition trim :: "jsstring \<Rightarrow> jsstring" where
  "trim str = rev (dropWhile isWhiteSpace (rev (dropWhile isWhiteSpace str)))"

text \<open>The code units of a string literal whose characters are all below 128.\<close>

definition units :: "string \<Rightarrow> jsstring" where
  "units str = map of_char str"

text \<open>Lines 240-245; \<open>chatInput\<close> is the captured one.\<close>

definition handleSendChat :: "'n GameScreen \<Rightarrow> 'n GameScreen" where
  "handleSendChat s =
     (if trim (chatInput_c s) = [] then s
      else s\<lparr>sentChat := sentChat s @ [trim (chatInput_c s)], chatInput := []\<rparr>)"

text \<open>
  What reaches the handlers. The canvas takes the responder only when \<open>isDrawing\<close>
  (lines 347-351), so a touch of another player reaches no handler; the tools with the undo and
  clear buttons are rendered only when \<open>isDrawing\<close> (line 394), the chat box only when
  \<open>isGuessingTeam\<close> (line 463). \<open>Render\<close> is a render of the component, after which the handlers
  are the closures over the state of that moment.
\<close>

datatype 'n ui_event =
  TouchStart "'n \<times> 'n" | TouchMove "'n \<times> 'n" | TouchEnd | PressUndo | PressClear | SubmitChat
  | Render

definition dispatch :: "int \<times> 'n ui_event \<Rightarrow> 'n GameScreen \<Rightarrow> 'n GameScreen" where
  "dispatch tev s =
     (case tev of (now, ev) \<Rightarrow>
        (case ev of
           TouchStart pt \<Rightarrow> if isDrawing s then handleTouchStart now pt s else s
         | TouchMove pt \<Rightarrow> if isDrawing s then handleTouchMove now pt s else s
         | TouchEnd \<Rightarrow> if isDrawing s then handleTouchEnd now s else s
         | PressUndo \<Rightarrow> if isDrawing s then handleUndo now s else s
         | PressClear \<Rightarrow> if isDrawing s then handleClear now s else s
         | SubmitChat \<Rightarrow> if isGuessingTeam s then handleSendChat s else s
         | Render \<Rightarrow> render s))"

text \<open>A sequence of events, each with the time at which it arrives.\<close>

definition run :: "(int \<times> 'n ui_event) list \<Rightarrow> 'n GameScreen \<Rightarrow> 'n GameScreen" where
  "run evs s = fold dispatch evs s"

text \<open>
  A gesture in which the component renders after the touch start and after every move: the
  events of the gesture, with a render after each but the last.
\<close>

definition renderedMoves :: "(int \<times> 'n \<times> 'n) list \<Rightarrow> (int \<times> 'n ui_event) list" where
  "renderedMoves ms = concat (map (\<lambda>(t, p). [(t, TouchMove p), (t, Render)]) ms)"

definition renderedGesture ::
  "int \<Rightarrow> 'n \<times> 'n \<Rightarrow> (int \<times> 'n \<times> 'n) list \<Rightarrow> int \<Rightarrow> (int \<times> 'n ui_event) list" where
  "renderedGesture t0 p0 ms te =
     (t0, TouchStart p0) # (t0, Render) # renderedMoves ms @ [(te, TouchEnd)]"

text \<open>
  Modelled from the spec: the guess check of the \<open>useMultiplayer\<close> hook, which is not among the
  sources. Section 4.3: a chat message from a member of the non-drawing team is compared,
  case-insensitive and trimmed, against the active secret word, and an exact match marks the
  message \<open>is_correct_guess = true\<close>; section 8: any other text leaves it false. The spec names
  no case folding: it is the parameter \<open>caseFold\<close>.
\<close>

record ChatMessage =
  player_id :: string
  player_name :: string
  text_m :: jsstring
  is_correct_guess :: bool

definition guessMatches :: "(jsstring \<Rightarrow> jsstring) \<Rightarrow> jsstring \<Rightarrow> jsstring \<Rightarrow> bool" where
  "guessMatches caseFold word txt = (caseFold (trim txt) = caseFold (trim word))"

definition sendChat_spec ::
  "(jsstring \<Rightarrow> jsstring) \<Rightarrow> Room \<Rightarrow> Player \<Rightarrow> jsstring \<Rightarrow> ChatMessage" where
  "sendChat_spec caseFold r sender txt =
     \<lparr>player_id = id_p sender, player_name = name sender, text_m = txt,
      is_correct_guess =
        (case current_word r of
           None \<Rightarrow> False
         | Some w \<Rightarrow> team sender \<noteq> None \<and> team sender \<noteq> drawing_team r
                     \<and> guessMatches caseFold w txt)\<rparr>"

text \<open>
  What a case folding does to a code unit below 128: the letters A to Z go to a to z, the others
  stay.
\<close>

definition asciiLower :: "nat \<Rightarrow> nat" where
  "asciiLower u = (if 65 \<le> u \<and> u \<le> 90 then u + 32 else u)"

section \<open>App.tsx: LocalGameApp\<close>

datatype GameState = Menu | Settings | Drawing | Reveal

datatype Difficulty = Easy | Medium | Hard | Mixed

record PathData =
  d_p :: string
  color_p :: string
  strokeWidth :: int

record GameSettings =
  timeLimit :: int
  difficulty :: Difficulty
  teamCount :: nat

text \<open>
  A slot of the \<open>scores\<close> array: a number, \<open>NaN\<close>, or a hole (reading it gives \<open>undefined\<close>).
\<close>

datatype jsnum = Num int | NaN | Hole

record LocalGameApp =
  gameState :: GameState
  currentWord :: string
  scores :: "jsnum list"
  currentTeam :: nat
  timeLeft :: int
  paths :: "PathData list"
  currentPath_l :: string
  selectedColor_l :: string
  brushSize_l :: int
  showWord :: bool
  settings_l :: GameSettings
  roundNumber :: int

text \<open>The initial values of the \<open>useState\<close> calls, lines 1157-1172.\<close>

definition initialLocalGame :: LocalGameApp where
  "initialLocalGame =
     \<lparr>gameState = Menu, currentWord = [], scores = [Num 0, Num 0], currentTeam = 0,
      timeLeft = 60, paths = [], currentPath_l = [], selectedColor_l = ''#000000'',
      brushSize_l = 4, showWord = False,
      settings_l = \<lparr>timeLimit = 60, difficulty = Mixed, teamCount = 2\<rparr>,
      roundNumber = 1\<rparr>"

text \<open>
  \<open>a[i] += 1\<close> on a JavaScript array: reading past the end or a hole gives \<open>undefined\<close>, and
  \<open>undefined + 1\<close> is \<open>NaN\<close>; writing past the end extends the array, leaving holes.
\<close>

definition js_get :: "jsnum list \<Rightarrow> nat \<Rightarrow> jsnum" where
  "js_get xs i = (if i < length xs then xs ! i else Hole)"

definition js_set :: "jsnum list \<Rightarrow> nat \<Rightarrow> jsnum \<Rightarrow> jsnum list" where
  "js_set xs i v =
     (if i < length xs then xs[i := v] else xs @ replicate (i - length xs) Hole @ [v])"

definition plus1 :: "jsnum \<Rightarrow> jsnum" where
  "plus1 v = (case v of Num n \<Rightarrow> Num (n + 1) | NaN \<Rightarrow> NaN | Hole \<Rightarrow> NaN)"

text \<open>Lines 1233-1257; the word is what \<open>getRandomWord()\<close> returned. The timers are left out.\<close>

definition startRound :: "string \<Rightarrow> LocalGameApp \<Rightarrow> LocalGameApp" where
  "startRound word g =
     g\<lparr>currentWord := word, paths := [], currentPath_l := [],
       timeLeft := timeLimit (settings_l g), showWord := True, gameState := Drawing\<rparr>"

text \<open>Lines 1259-1290.\<close>

definition handleGuessCorrect :: "LocalGameApp \<Rightarrow> LocalGameApp" where
  "handleGuessCorrect g =
     g\<lparr>scores := js_set (scores g) (currentTeam g) (plus1 (js_get (scores g) (currentTeam g))),
       currentTeam := (currentTeam g + 1) mod teamCount (settings_l g),
       roundNumber := roundNumber g + 1,
       gameState := Menu\<rparr>"

definition handleSkip :: "LocalGameApp \<Rightarrow> LocalGameApp" where
  "handleSkip g =
     g\<lparr>currentTeam := (currentTeam g + 1) mod teamCount (settings_l g),
       roundNumber := roundNumber g + 1,
       gameState := Menu\<rparr>"

text \<open>Lines 1292-1307.\<close>

definition clearCanvas :: "LocalGameApp \<Rightarrow> LocalGameApp" where
  "clearCanvas g = g\<lparr>paths := [], currentPath_l := []\<rparr>"

definition undoLast :: "LocalGameApp \<Rightarrow> LocalGameApp" where
  "undoLast g = g\<lparr>paths := js_slice (paths g) 0 (- 1)\<rparr>"

definition resetGame :: "LocalGameApp \<Rightarrow> LocalGameApp" where
  "resetGame g =
     g\<lparr>scores := replicate (teamCount (settings_l g)) (Num 0), currentTeam := 0,
       roundNumber := 1\<rparr>"

text \<open>Lines 1420-1428, the press on one of the team-count options (2, 3 or 4).\<close>

definition chooseTeamCount :: "nat \<Rightarrow> LocalGameApp \<Rightarrow> LocalGameApp" where
  "chooseTeamCount count g =
     g\<lparr>settings_l := (settings_l g)\<lparr>teamCount := count\<rparr>,
       scores := replicate count (Num 0)\<rparr>"

text \<open>
  The buttons of the local game, each present on the screen that renders it (lines 1327-1559):
  the menu has start round, settings and new game; the settings screen has the team counts and
  back; the drawing screen has undo, clear, got it and skip; the reveal screen has got it and
  skip.
\<close>

datatype local_event =
  StartRound string | OpenSettings | NewGame | ChooseTeams nat | BackToGame
  | GotIt | Skip | UndoLast | ClearCanvas

definition press :: "local_event \<Rightarrow> LocalGameApp \<Rightarrow> LocalGameApp" where
  "press ev g =
     (case ev of
        StartRound w \<Rightarrow> if gameState g = Menu then startRound w g else g
      | OpenSettings \<Rightarrow> if gameState g = Menu then g\<lparr>gameState := Settings\<rparr> else g
      | NewGame \<Rightarrow> if gameState g = Menu then resetGame g else g
      | ChooseTeams n \<Rightarrow>
          if gameState g = Settings \<and> (n = 2 \<or> n = 3 \<or> n = 4) then chooseTeamCount n g else g
      | BackToGame \<Rightarrow> if gameState g = Settings then g\<lparr>gameState := Menu\<rparr> else g
      | GotIt \<Rightarrow>
          if gameState g = Drawing \<or> gameState g = Reveal then handleGuessCorrect g else g
      | Skip \<Rightarrow> if gameState g = Drawing \<or> gameState g = Reveal then handleSkip g else g
      | UndoLast \<Rightarrow> if gameState g = Drawing then undoLast g else g
      | ClearCanvas \<Rightarrow> if gameState g = Drawing then clearCanvas g else g)"

definition presses :: "local_event list \<Rightarrow> LocalGameApp \<Rightarrow> LocalGameApp" where
  "presses evs g = fold press evs g"

section \<open>Observations and example states\<close>

text \<open>\<open>room?.status\<close>\<close>

definition roomStatus :: "Hook \<Rightarrow> room_status option" where
  "roomStatus h = map_option status (room h)"

definition hostP :: Player where
  "hostP = \<lparr>id_p = ''p1'', name = ''Ann'', team = Some 1, is_host = True, is_ready = True,
            is_drawing = False, score = 0\<rparr>"

definition guestP :: Player where
  "guestP = \<lparr>id_p = ''p2'', name = ''Bob'', team = Some 2, is_host = False, is_ready = True,
             is_drawing = False, score = 0\<rparr>"

definition drawerP :: Player where
  "drawerP = \<lparr>id_p = ''p1'', name = ''Ann'', team = Some 1, is_host = True, is_ready = True,
              is_drawing = True, score = 0\<rparr>"

definition lobbyRoom :: Room where
  "lobbyRoom = \<lparr>code = ''ABCD'', status = Waiting,
     settings = \<lparr>timer_seconds = 60, allow_tag_team = False\<rparr>,
     current_round = 0, current_word = None, drawing_team = None, round_start_time = None\<rparr>"

text \<open>A room in play whose round started at millisecond 1000000, with a timer of \<open>d\<close> seconds.\<close>

definition playRoom :: "int \<Rightarrow> Room" where
  "playRoom d = \<lparr>code = ''ABCD'', status = Playing,
     settings = \<lparr>timer_seconds = d, allow_tag_team = False\<rparr>,
     current_round = 1, current_word = Some (units ''Elephant''), drawing_team = Some 1,
     round_start_time = Some 1000000\<rparr>"

definition lobbyApp :: "Player list \<Rightarrow> MultiplayerApp" where
  "lobbyApp ps = \<lparr>screen = Lobby, timeRemaining = 60, timerRef = False, startPending = 0,
     hook = \<lparr>room = Some lobbyRoom, players = ps, currentPlayer = Some hostP, error = None\<rparr>,
     alerts = [], calls = []\<rparr>"

definition gameApp :: "int \<Rightarrow> Player \<Rightarrow> MultiplayerApp" where
  "gameApp d me = \<lparr>screen = Game, timeRemaining = 60, timerRef = False, startPending = 0,
     hook = \<lparr>room = Some (playRoom d), players = [hostP, guestP], currentPlayer = Some me,
             error = None\<rparr>,
     alerts = [], calls = []\<rparr>"

text \<open>A game screen as it is right after a render, with \<open>input\<close> typed in the chat box.\<close>

definition gameScreen :: "Player \<Rightarrow> jsstring \<Rightarrow> int GameScreen" where
  "gameScreen me input = \<lparr>room_g = playRoom 60, currentPlayer_g = Some me, localPaths = [],
     currentPath = None, selectedColor = ''#000000'', brushSize_g = 8, chatInput = input,
     currentPath_c = None, selectedColor_c = ''#000000'', brushSize_c = 8,
     chatInput_c = input, sentDrawing = [], sentChat = []\<rparr>"

definition stroke :: "int \<Rightarrow> int LocalPath" where
  "stroke k = \<lparr>id_l = k, points = [(k, k)], color = ''#000000'', brushSize = 8\<rparr>"

section \<open>The start of a game\<close>

lemma canStart_iff_preconditions:
  "canStart (players h) (currentPlayer h) = startPreconditions h"
  by (auto simp: canStart_def startPreconditions_def allReady_def team1Players_def
        team2Players_def Suc_le_eq)

lemma startPreconditions_iff:
  "startPreconditions h =
     (isHost (currentPlayer h) \<and> 2 \<le> length (players h) \<and> list_all is_ready (players h)
      \<and> 1 \<le> length (team1Players (players h)) \<and> 1 \<le> length (team2Players (players h)))"
  by (auto simp: startPreconditions_def team1Players_def team2Players_def Suc_le_eq)

lemma pressStart_only_counts:
  "pressStart a = a \<or> pressStart a = a\<lparr>startPending := startPending a + 1\<rparr>"
  by (simp add: pressStart_def)

lemma pressStart_pending_canStart:
  "startPending (pressStart a) \<noteq> startPending a
     \<Longrightarrow> canStart (players (hook a)) (currentPlayer (hook a))"
  by (simp add: pressStart_def startButton_def split: if_splits)

lemma startAnimationEnd_idle: "startPending a = 0 \<Longrightarrow> startAnimationEnd startGame a = a"
  by (simp add: startAnimationEnd_def)

lemma startAnimationEnd_hook:
  "0 < startPending a \<Longrightarrow> hook (startAnimationEnd startGame a) = startGame (hook a)"
  by (simp add: startAnimationEnd_def handleStartGame_def transitionTo_def)

text \<open>
  The start can be attempted with a failing condition: the host presses the enabled button,
  the guest leaves while the press animation runs, and the completion callback calls
  \<open>startGame\<close> with the host alone.
\<close>

lemma start_attempt_after_guest_left:
  "startPending (pressStart (lobbyApp [hostP, guestP])) = 1
   \<and> error (hook (startAnimationEnd (startGame_spec ''p1'' (units ''cat'') 0)
        ((pressStart (lobbyApp [hostP, guestP]))
           \<lparr>hook := (hook (lobbyApp [hostP, guestP]))\<lparr>players := [hostP]\<rparr>\<rparr>)))
       = Some ''PreconditionFailed''
   \<and> roomStatus (hook (startAnimationEnd (startGame_spec ''p1'' (units ''cat'') 0)
        ((pressStart (lobbyApp [hostP, guestP]))
           \<lparr>hook := (hook (lobbyApp [hostP, guestP]))\<lparr>players := [hostP]\<rparr>\<rparr>)))
       = Some Waiting"
  by (simp add: pressStart_def startButton_def canStart_def allReady_def hasTeam_def isHost_def
      team1Players_def team2Players_def lobbyApp_def hostP_def guestP_def lobbyRoom_def
      startAnimationEnd_def handleStartGame_def transitionTo_def startGame_spec_def
      startPreconditions_def roomStatus_def)

text \<open>
  Claim C1. In a waiting room, the start-game action (\<open>handleStartGame\<close>, which calls the
  hook's \<open>startGame\<close>) moves the room to playing if and only if, at that moment, the current
  player is the host, there are at least 2 players, every player is ready and each of the two
  teams has a member; when one of these fails the status stays waiting and the error slot
  holds \<open>PreconditionFailed\<close>. In the lobby the action is reached only as the completion
  callback of a press on the start button: the press itself leaves the hook's state and calls
  nothing, and without a pending press the callback does not run.
\<close>

theorem start_game_action:
  assumes "roomStatus (hook a) = Some Waiting"
  shows "(roomStatus (hook (handleStartGame (startGame_spec drawer word now) a)) = Some Playing)
           = (isHost (currentPlayer (hook a))
              \<and> 2 \<le> length (players (hook a)) \<and> list_all is_ready (players (hook a))
              \<and> 1 \<le> length (team1Players (players (hook a)))
              \<and> 1 \<le> length (team2Players (players (hook a))))
       \<and> (\<not> (isHost (currentPlayer (hook a))
               \<and> 2 \<le> length (players (hook a)) \<and> list_all is_ready (players (hook a))
               \<and> 1 \<le> length (team1Players (players (hook a)))
               \<and> 1 \<le> length (team2Players (players (hook a))))
            \<longrightarrow> roomStatus (hook (handleStartGame (startGame_spec drawer word now) a))
                  = Some Waiting
                \<and> error (hook (handleStartGame (startGame_spec drawer word now) a))
                  = Some ''PreconditionFailed'')
       \<and> hook (pressStart a) = hook a \<and> calls (pressStart a) = calls a
       \<and> (0 < startPending a \<longrightarrow>
            hook (startAnimationEnd (startGame_spec drawer word now) a)
              = hook (handleStartGame (startGame_spec drawer word now) a))
       \<and> (startPending a = 0 \<longrightarrow> startAnimationEnd (startGame_spec drawer word now) a = a)"
proof -
  from assms obtain r where r: "room (hook a) = Some r" and w: "status r = Waiting"
    by (auto simp: roomStatus_def)
  have h: "hook (handleStartGame sg a) = sg (hook a)" for sg
    by (simp add: handleStartGame_def transitionTo_def)
  have ok: "startPreconditions (hook a)
      \<Longrightarrow> roomStatus (startGame_spec drawer word now (hook a)) = Some Playing"
    using r w by (simp add: startGame_spec_def roomStatus_def)
  have ko: "\<not> startPreconditions (hook a)
      \<Longrightarrow> roomStatus (startGame_spec drawer word now (hook a)) = Some Waiting
        \<and> error (startGame_spec drawer word now (hook a)) = Some ''PreconditionFailed''"
    using r w by (simp add: startGame_spec_def roomStatus_def)
  have p: "hook (pressStart a) = hook a \<and> calls (pressStart a) = calls a"
    by (simp add: pressStart_def)
  let ?C = "isHost (currentPlayer (hook a))
              \<and> 2 \<le> length (players (hook a)) \<and> list_all is_ready (players (hook a))
              \<and> 1 \<le> length (team1Players (players (hook a)))
              \<and> 1 \<le> length (team2Players (players (hook a)))"
  have C: "?C = startPreconditions (hook a)"
    by (rule startPreconditions_iff [symmetric])
  have c1: "(roomStatus (hook (handleStartGame (startGame_spec drawer word now) a))
               = Some Playing) = ?C"
    unfolding C h using ok ko by (cases "startPreconditions (hook a)") simp_all
  have c2: "\<not> ?C \<longrightarrow>
      roomStatus (hook (handleStartGame (startGame_spec drawer word now) a)) = Some Waiting
      \<and> error (hook (handleStartGame (startGame_spec drawer word now) a))
          = Some ''PreconditionFailed''"
    unfolding C h using ko by simp
  have c4: "0 < startPending a \<longrightarrow>
      hook (startAnimationEnd (startGame_spec drawer word now) a)
        = hook (handleStartGame (startGame_spec drawer word now) a)"
    by (simp add: startAnimationEnd_hook h)
  have c5: "startPending a = 0 \<longrightarrow> startAnimationEnd (startGame_spec drawer word now) a = a"
    by (simp add: startAnimationEnd_idle)
  from c1 c2 p c4 c5 show ?thesis
    by (intro conjI) simp_all
qed

text \<open>
  With a ready host on team 1 and a ready guest on team 2 the action starts the game; with the
  host alone it leaves the room waiting and reports \<open>PreconditionFailed\<close>.
\<close>

theorem start_game_action_witness:
  "roomStatus (hook (handleStartGame (startGame_spec ''p1'' (units ''cat'') 0)
      (lobbyApp [hostP, guestP]))) = Some Playing
   \<and> roomStatus (hook (handleStartGame (startGame_spec ''p1'' (units ''cat'') 0)
      (lobbyApp [hostP]))) = Some Waiting
   \<and> error (hook (handleStartGame (startGame_spec ''p1'' (units ''cat'') 0)
      (lobbyApp [hostP]))) = Some ''PreconditionFailed''"
proof -
  have w: "roomStatus (hook (lobbyApp ps)) = Some Waiting" for ps
    by (simp add: lobbyApp_def roomStatus_def lobbyRoom_def)
  show ?thesis
    using start_game_action [OF w [of "[hostP, guestP]"], where drawer = "''p1''"
          and word = "units ''cat''" and now = 0]
      start_game_action [OF w [of "[hostP]"], where drawer = "''p1''"
          and word = "units ''cat''" and now = 0]
    by (simp add: lobbyApp_def hostP_def guestP_def isHost_def team1Players_def
        team2Players_def)
qed

section \<open>The countdown\<close>

lemma timerEffect_installs_interval:
  "timerRef (timerEffect now a) = (roomStatus (hook a) = Some Playing)"
  by (simp add: timerEffect_def roomStatus_def split: option.splits)

text \<open>
  Claim C2. On a client whose interval is installed (the room is playing) and whose countdown
  reaches zero on this tick (it is at most 1), the tick submits \<open>endRound\<close> if and only if the
  current player is the host. A client whose current player is not the host never submits
  it, whatever the state, and no client submits it on a tick before the countdown is down to 1.
\<close>

theorem round_end_host_only:
  "(timerRef a \<and> room (hook a) = Some r \<and> status r = Playing \<and> timeRemaining a \<le> 1
      \<longrightarrow> (calls (intervalTick endRound a) = calls a @ [EndRound])
            = isHost (currentPlayer (hook a)))
   \<and> (\<not> isHost (currentPlayer (hook a))
      \<longrightarrow> calls (intervalTick endRound a) = calls a
        \<and> hook (intervalTick endRound a) = hook a)
   \<and> (1 < timeRemaining a \<longrightarrow> calls (intervalTick endRound a) = calls a)"
  by (simp add: intervalTick_def Let_def split: option.splits)

text \<open>
  With a timer of 1 second the first tick after the effect is the expiry: the host's client
  calls \<open>endRound\<close>, the guest's does not.
\<close>

theorem round_end_host_only_witness:
  "calls (intervalTick id (timerEffect 1000000 (gameApp 1 hostP))) = [EndRound]
   \<and> calls (intervalTick id (timerEffect 1000000 (gameApp 1 guestP))) = []"
  using round_end_host_only [of "timerEffect 1000000 (gameApp 1 hostP)" "playRoom 1" id]
    round_end_host_only [of "timerEffect 1000000 (gameApp 1 guestP)" "playRoom 1" id]
  by (simp add: timerEffect_def gameApp_def playRoom_def hostP_def guestP_def isHost_def
      remainingAt_def Let_def)

text \<open>
  Claim C3, as the code has it. While the room is playing, each run of the timer effect sets
  the countdown to the clamped recomputation from \<open>round_start_time\<close> (to \<open>timer_seconds\<close> when the
  room has no \<open>round_start_time\<close>); an interval tick does not read the clock: it takes 1 off the
  countdown, and puts it back to \<open>timer_seconds\<close> when it finds it at 1 or less.
\<close>

theorem countdown_sync:
  assumes "room (hook a) = Some r" and "status r = Playing"
  shows "(round_start_time r = Some t0 \<longrightarrow>
            timeRemaining (timerEffect now a)
              = max 0 (timer_seconds (settings r) - (now - t0) div 1000))
       \<and> (round_start_time r = None \<longrightarrow>
            timeRemaining (timerEffect now a) = timer_seconds (settings r))
       \<and> (timerRef a \<longrightarrow>
            timeRemaining (intervalTick endRound a)
              = (if timeRemaining a \<le> 1 then timer_seconds (settings r)
                 else timeRemaining a - 1))"
  using assms by (simp add: timerEffect_def intervalTick_def remainingAt_def Let_def)

theorem countdown_sync_witness:
  "timeRemaining (timerEffect 1045000 (gameApp 60 guestP)) = 15
   \<and> timeRemaining (intervalTick id (timerEffect 1045000 (gameApp 60 guestP))) = 14"
  using countdown_sync [of "gameApp 60 guestP" "playRoom 60" 1000000 1045000]
    countdown_sync [of "timerEffect 1045000 (gameApp 60 guestP)" "playRoom 60" 1000000 1045000 id]
  by (simp add: timerEffect_def gameApp_def playRoom_def remainingAt_def Let_def)

text \<open>
  Claim C3 as stated fails. A guest's client, timer of 2 seconds, round started at millisecond
  1000000: the effect at 1000000 sets the countdown to 2, as the recomputation gives; the tick
  at 1001000 makes it 1; the tick at 1002000 finds 1 and puts the countdown back to 2, while
  the room is still playing the same round and the recomputation at 1002000 gives 0.
\<close>

theorem countdown_not_recomputed_counterexample:
  "status (playRoom 2) = Playing
   \<and> timeRemaining (timerEffect 1000000 (gameApp 2 guestP)) = remainingAt (playRoom 2) 1000000
   \<and> timeRemaining (intervalTick id (intervalTick id (timerEffect 1000000 (gameApp 2 guestP))))
       = 2
   \<and> hook (intervalTick id (intervalTick id (timerEffect 1000000 (gameApp 2 guestP))))
       = hook (gameApp 2 guestP)
   \<and> remainingAt (playRoom 2) (1000000 + 2000) = 0"
  by (simp add: timerEffect_def intervalTick_def gameApp_def playRoom_def guestP_def isHost_def
      remainingAt_def Let_def)

text \<open>
  Claim C4. For a playing room with \<open>round_start_time = t0\<close> and \<open>timer_seconds = d\<close>, the
  remaining time the effect computes at time \<open>t\<close> (milliseconds) is
  \<open>max 0 (d - floor ((t - t0) / 1000))\<close>, never negative; with \<open>d = 60\<close> it is 15 at
  \<open>t0 + 45 s\<close> and 0 at \<open>t0 + 70 s\<close>.
\<close>

theorem remaining_time:
  assumes "room (hook a) = Some r" and "status r = Playing"
    and "round_start_time r = Some t0" and "timer_seconds (settings r) = d"
  shows "timeRemaining (timerEffect t a) = max 0 (d - (t - t0) div 1000)
     \<and> remainingAt r t = max 0 (d - (t - t0) div 1000)
     \<and> 0 \<le> remainingAt r t
     \<and> (d = 60 \<longrightarrow> remainingAt r (t0 + 45000) = 15 \<and> remainingAt r (t0 + 70000) = 0)"
  using assms by (simp add: timerEffect_def remainingAt_def Let_def)

theorem remaining_time_witness:
  "timeRemaining (timerEffect 1045000 (gameApp 60 hostP)) = 15
   \<and> remainingAt (playRoom 60) (1000000 + 45000) = 15
   \<and> remainingAt (playRoom 60) (1000000 + 70000) = 0"
  using remaining_time [of "gameApp 60 hostP" "playRoom 60" 1000000 60 1045000]
  by (simp add: gameApp_def playRoom_def)

section \<open>Missing backend credentials\<close>

text \<open>
  Claim C9. When \<open>isSupabaseConfigured()\<close> is false, \<open>handleCreateRoom\<close> returns null and
  \<open>handleJoinRoom\<close> returns false, each after one alert titled "Setup Required"; whatever the
  hook's \<open>createRoom\<close> and \<open>joinRoom\<close> would do, they are not called: the hook's state (room,
  players, current player, error slot) and the list of hook calls are as before.
\<close>

theorem no_credentials_no_backend_call:
  "handleCreateRoom False createRoom playerName a =
     (None, a\<lparr>alerts := alerts a @ [(''Setup Required'',
        ''Multiplayer requires Supabase configuration. Please add your Supabase URL and anon key to the environment.'')]\<rparr>)
   \<and> handleJoinRoom False joinRoom roomCode playerName a =
     (False, a\<lparr>alerts := alerts a @ [(''Setup Required'',
        ''Multiplayer requires Supabase configuration.'')]\<rparr>)
   \<and> hook (snd (handleCreateRoom False createRoom playerName a)) = hook a
   \<and> calls (snd (handleCreateRoom False createRoom playerName a)) = calls a
   \<and> hook (snd (handleJoinRoom False joinRoom roomCode playerName a)) = hook a
   \<and> calls (snd (handleJoinRoom False joinRoom roomCode playerName a)) = calls a"
  by (simp add: handleCreateRoom_def handleJoinRoom_def)

text \<open>
  On the lobby example, with a \<open>createRoom\<close> and a \<open>joinRoom\<close> that would wipe the room if they
  were called.
\<close>

theorem no_credentials_no_backend_call_witness:
  "fst (handleCreateRoom False (\<lambda>n h. (Some n, h\<lparr>room := None\<rparr>)) ''Ann'' (lobbyApp [hostP]))
     = None
   \<and> hook (snd (handleCreateRoom False (\<lambda>n h. (Some n, h\<lparr>room := None\<rparr>)) ''Ann''
        (lobbyApp [hostP]))) = hook (lobbyApp [hostP])
   \<and> fst (handleJoinRoom False (\<lambda>c n h. (True, h\<lparr>room := None\<rparr>)) ''ABCD'' ''Ann''
        (lobbyApp [hostP])) = False
   \<and> calls (snd (handleJoinRoom False (\<lambda>c n h. (True, h\<lparr>room := None\<rparr>)) ''ABCD'' ''Ann''
        (lobbyApp [hostP]))) = []"
  using no_credentials_no_backend_call
    [where createRoom = "\<lambda>n h. (Some n, h\<lparr>room := None\<rparr>)" and playerName = "''Ann''"
       and a = "lobbyApp [hostP]" and joinRoom = "\<lambda>c n h. (True, h\<lparr>room := None\<rparr>)"
       and roomCode = "''ABCD''"]
  by (simp add: lobbyApp_def)

section \<open>Strokes\<close>

lemma js_slice_butlast: "js_slice xs 0 (- 1) = butlast xs"
proof -
  have "nat (max (int (length xs) - 1) 0) = length xs - 1" by (cases xs) auto
  then show ?thesis by (simp add: js_slice_def js_index_def butlast_conv_take)
qed

lemma run_Cons: "run (tev # evs) s = run evs (dispatch tev s)"
  by (simp add: run_def)

lemma run_append: "run (evs @ evs') s = run evs' (run evs s)"
  by (simp add: run_def)

lemma run_Nil: "run [] s = s"
  by (simp add: run_def)

lemma isDrawing_dispatch [simp]: "isDrawing (dispatch tev s) = isDrawing s"
  by (cases tev; cases "snd tev")
     (auto simp: dispatch_def isDrawing_def handleTouchStart_def handleTouchMove_def
        handleTouchEnd_def handleUndo_def handleClear_def handleSendChat_def render_def Let_def
        split: option.splits)

lemma dispatch_not_drawing:
  "\<not> isDrawing s \<Longrightarrow>
     localPaths (dispatch tev s) = localPaths s \<and> currentPath (dispatch tev s) = currentPath s
     \<and> sentDrawing (dispatch tev s) = sentDrawing s"
  by (cases tev; cases "snd tev") (auto simp: dispatch_def handleSendChat_def render_def)

lemma run_not_drawing:
  "\<not> isDrawing s \<Longrightarrow>
     localPaths (run evs s) = localPaths s \<and> currentPath (run evs s) = currentPath s
     \<and> sentDrawing (run evs s) = sentDrawing s"
proof (induction evs arbitrary: s)
  case Nil
  show ?case by (simp add: run_def)
next
  case (Cons tev evs)
  have "\<not> isDrawing (dispatch tev s)" using Cons.prems by simp
  from Cons.IH [OF this] dispatch_not_drawing [OF Cons.prems, of tev]
  show ?case by (simp add: run_def)
qed

text \<open>The path of a stroke lists its points in their order: one M, then one L for each move.\<close>

lemma fold_path_segments:
  "fold (\<lambda>point d. d @ seg point) rest d0 = d0 @ concat (map seg rest)"
  by (induction rest arbitrary: d0) simp_all

lemma pointsToPath_Cons:
  "pointsToPath str (first # rest) =
     (''M '' @ str (fst first) @ '' '' @ str (snd first))
     @ concat (map (\<lambda>point. '' L '' @ str (fst point) @ '' '' @ str (snd point)) rest)"
  unfolding pointsToPath_def by (simp only: list.case fold_path_segments)

text \<open>
  Claim C7. Undo on a collection whose last completed stroke is \<open>p\<close> leaves exactly the strokes
  before it, in order; undo on an empty collection leaves it empty. This holds for the
  multiplayer screen's \<open>handleUndo\<close> (which leaves the stroke in progress alone) and for the
  local game's \<open>undoLast\<close>.
\<close>

theorem undo_removes_last_stroke:
  "localPaths (handleUndo now (s\<lparr>localPaths := xs @ [p]\<rparr>)) = xs
   \<and> localPaths (handleUndo now (s\<lparr>localPaths := []\<rparr>)) = []
   \<and> localPaths (handleUndo now s) = butlast (localPaths s)
   \<and> currentPath (handleUndo now s) = currentPath s
   \<and> paths (undoLast (g\<lparr>paths := ys @ [q]\<rparr>)) = ys
   \<and> paths (undoLast (g\<lparr>paths := []\<rparr>)) = []
   \<and> paths (undoLast g) = butlast (paths g)"
  by (simp add: handleUndo_def undoLast_def js_slice_butlast)

theorem undo_removes_last_stroke_witness:
  "localPaths (handleUndo 9 ((gameScreen drawerP [])\<lparr>localPaths := [stroke 1, stroke 2, stroke 3]\<rparr>))
     = [stroke 1, stroke 2]
   \<and> localPaths (handleUndo 9 (gameScreen drawerP [])) = []"
  using undo_removes_last_stroke [where now = 9 and s = "gameScreen drawerP []"
      and xs = "[stroke 1, stroke 2]" and p = "stroke 3"]
  by (simp add: gameScreen_def)

text \<open>
  When the component renders after the touch start and after every move, the handlers always
  hold the stroke as it is: each move appends its point, and the touch end records the stroke
  with all the points of the gesture, in the order supplied.
\<close>

lemma rendered_move:
  assumes "isDrawing s" and "currentPath s = Some cur" and "currentPath_c s = Some cur"
  shows "isDrawing (dispatch (t, Render) (dispatch (t, TouchMove p) s))
       \<and> currentPath (dispatch (t, Render) (dispatch (t, TouchMove p) s))
           = Some (cur\<lparr>points := points cur @ [p]\<rparr>)
       \<and> currentPath_c (dispatch (t, Render) (dispatch (t, TouchMove p) s))
           = Some (cur\<lparr>points := points cur @ [p]\<rparr>)
       \<and> localPaths (dispatch (t, Render) (dispatch (t, TouchMove p) s)) = localPaths s
       \<and> map xy_e (sentDrawing (dispatch (t, Render) (dispatch (t, TouchMove p) s)))
           = map xy_e (sentDrawing s) @ [Some p]"
  using assms by (simp add: dispatch_def handleTouchMove_def render_def isDrawing_def)

lemma rendered_moves:
  assumes "isDrawing s" and "currentPath s = Some cur" and "currentPath_c s = Some cur"
  shows "isDrawing (run (renderedMoves ms) s)
       \<and> currentPath_c (run (renderedMoves ms) s)
           = Some (cur\<lparr>points := points cur @ map snd ms\<rparr>)
       \<and> localPaths (run (renderedMoves ms) s) = localPaths s
       \<and> map xy_e (sentDrawing (run (renderedMoves ms) s))
           = map xy_e (sentDrawing s) @ map (Some \<circ> snd) ms"
  using assms
proof (induction ms arbitrary: s cur)
  case Nil
  then show ?case by (simp add: renderedMoves_def run_def)
next
  case (Cons m ms)
  obtain t p where m: "m = (t, p)" by (cases m)
  let ?s1 = "dispatch (t, Render) (dispatch (t, TouchMove p) s)"
  note one = rendered_move [OF Cons.prems, of t p]
  have step: "run (renderedMoves (m # ms)) s = run (renderedMoves ms) ?s1"
    by (simp add: renderedMoves_def run_def m)
  from one have a: "isDrawing ?s1"
    and b: "currentPath ?s1 = Some (cur\<lparr>points := points cur @ [p]\<rparr>)"
    and c: "currentPath_c ?s1 = Some (cur\<lparr>points := points cur @ [p]\<rparr>)"
    by simp_all
  from Cons.IH [OF a b c] one show ?case
    unfolding step by (simp add: m)
qed

lemma gesture_points_rendered:
  assumes "isDrawing s"
  shows "localPaths (run (renderedGesture t0 p0 ms te) s)
           = localPaths s @ [\<lparr>id_l = t0, points = p0 # map snd ms, color = selectedColor_c s,
                                brushSize = brushSize_c s\<rparr>]
       \<and> currentPath (run (renderedGesture t0 p0 ms te) s) = None
       \<and> map xy_e (sentDrawing (run (renderedGesture t0 p0 ms te) s))
           = map xy_e (sentDrawing s) @ Some p0 # map (Some \<circ> snd) ms @ [None]"
proof -
  define cur where "cur = \<lparr>id_l = t0, points = [p0], color = selectedColor_c s,
                            brushSize = brushSize_c s\<rparr>"
  define s1 where "s1 = dispatch (t0, Render) (dispatch (t0, TouchStart p0) s)"
  define s2 where "s2 = run (renderedMoves ms) s1"
  have d1: "isDrawing s1" using assms by (simp add: s1_def)
  have c1: "currentPath s1 = Some cur" and cc1: "currentPath_c s1 = Some cur"
    and l1: "localPaths s1 = localPaths s"
    and sd1: "map xy_e (sentDrawing s1) = map xy_e (sentDrawing s) @ [Some p0]"
    using assms
    by (simp_all add: s1_def dispatch_def handleTouchStart_def render_def Let_def cur_def)
  note mv = rendered_moves [OF d1 c1 cc1, of ms, folded s2_def]
  have whole: "run (renderedGesture t0 p0 ms te) s = dispatch (te, TouchEnd) s2"
    by (simp only: renderedGesture_def run_Cons run_append run_Nil s1_def s2_def)
  also have "\<dots> = handleTouchEnd te s2"
    using mv by (simp add: dispatch_def)
  finally have whole': "run (renderedGesture t0 p0 ms te) s = handleTouchEnd te s2" .
  show ?thesis
    unfolding whole' using mv l1 sd1
    by (simp add: handleTouchEnd_def cur_def)
qed

text \<open>
  Claim C8, at the inputs where the code departs from it. On the drawer's screen, right after
  a render: a gesture whose last move and touch end arrive with no render between them records
  the stroke without the point of that move, though the move event was sent; a gesture whose
  start, move and end all arrive before the next render records no stroke, and only its start
  event is sent. \<open>handleTouchEnd\<close> appends the \<open>currentPath\<close> of the last render, and
  \<open>handleTouchMove\<close> and \<open>handleTouchEnd\<close> return when that one is null.
\<close>

theorem gesture_stale_closure:
  "localPaths (run [(5, TouchStart (1, 2)), (5, Render), (6, TouchMove (3, 4)),
       (6, Render), (7, TouchMove (5, 6)), (8, TouchEnd)] (gameScreen drawerP []))
     = [\<lparr>id_l = 5, points = [(1, 2), (3, 4)], color = ''#000000'', brushSize = 8\<rparr>]
   \<and> map xy_e (sentDrawing (run [(5, TouchStart (1, 2)), (5, Render), (6, TouchMove (3, 4)),
       (6, Render), (7, TouchMove (5, 6)), (8, TouchEnd)] (gameScreen drawerP [])))
     = [Some (1, 2), Some (3, 4), Some (5, 6), None]
   \<and> localPaths (run [(5, TouchStart (1, 2)), (6, TouchMove (3, 4)), (7, TouchEnd)]
       (gameScreen drawerP [])) = []
   \<and> map type_e (sentDrawing (run [(5, TouchStart (1, 2)), (6, TouchMove (3, 4)), (7, TouchEnd)]
       (gameScreen drawerP []))) = [EvStart]"
  by (simp add: run_def dispatch_def gameScreen_def drawerP_def isDrawing_def
      handleTouchStart_def handleTouchMove_def handleTouchEnd_def render_def Let_def)

text \<open>
  Claim C10. When the current player's \<open>is_drawing\<close> flag is false, the touch start, move and
  end handlers return the state as it is, and no sequence of touches and button presses on
  the screen changes \<open>localPaths\<close> or \<open>currentPath\<close> or sends a drawing event: the undo and clear
  buttons are not rendered for that player.
\<close>

theorem non_drawer_no_strokes:
  assumes "\<not> isDrawing s"
  shows "handleTouchStart now pt s = s \<and> handleTouchMove now pt s = s
       \<and> handleTouchEnd now s = s
       \<and> localPaths (run evs s) = localPaths s \<and> currentPath (run evs s) = currentPath s
       \<and> sentDrawing (run evs s) = sentDrawing s"
  using assms run_not_drawing [OF assms, of evs]
  by (simp add: handleTouchStart_def handleTouchMove_def handleTouchEnd_def)

theorem non_drawer_no_strokes_witness:
  "handleTouchStart 5 (1, 2) (gameScreen guestP []) = gameScreen guestP []
   \<and> sentDrawing (run [(5, TouchStart (1, 2)), (6, TouchMove (3, 4)), (7, TouchEnd),
                        (8, PressUndo), (9, PressClear)] (gameScreen guestP [])) = []
   \<and> localPaths (run [(5, TouchStart (1, 2)), (6, TouchMove (3, 4)), (7, TouchEnd),
                        (8, PressUndo), (9, PressClear)] (gameScreen guestP [])) = []"
proof -
  have d: "\<not> isDrawing (gameScreen guestP [])"
    by (simp add: isDrawing_def gameScreen_def guestP_def)
  show ?thesis
    using non_drawer_no_strokes [OF d, where now = 5 and pt = "(1, 2)" and evs =
        "[(5, TouchStart (1, 2)), (6, TouchMove (3, 4)), (7, TouchEnd), (8, PressUndo),
          (9, PressClear)]"]
    by (simp add: gameScreen_def)
qed

section \<open>Guesses\<close>

lemma trim_example: "trim (units '' elephant '') = units ''elephant''"
  by (simp add: units_def trim_def isWhiteSpace_def)

text \<open>No-break and ideographic spaces are trimmed as the ASCII ones are.\<close>

lemma trim_nbsp: "trim (0xA0 # units ''elephant'' @ [0xA0, 0x3000, 0x2003]) = units ''elephant''"
  by (simp add: units_def trim_def isWhiteSpace_def)

lemma trim_guess: "trim (units ''elephant'') = units ''elephant''"
  by (simp add: units_def trim_def isWhiteSpace_def)

lemma trim_word: "trim (units ''Elephant'') = units ''Elephant''"
  by (simp add: units_def trim_def isWhiteSpace_def)

lemma trim_plural: "trim (units ''elephants'') = units ''elephants''"
  by (simp add: units_def trim_def isWhiteSpace_def)

lemma ascii_units: "list_all (\<lambda>u. u < 128) (units ''elephant'') \<and> list_all (\<lambda>u. u < 128) (units ''Elephant'')
  \<and> list_all (\<lambda>u. u < 128) (units ''elephants'')"
  by (simp add: units_def)

lemma lower_examples:
  "map asciiLower (units ''Elephant'') = units ''elephant''
   \<and> map asciiLower (units ''elephant'') = units ''elephant''
   \<and> map asciiLower (units ''elephants'') = units ''elephants''
   \<and> units ''elephants'' \<noteq> units ''elephant''"
  by (simp add: units_def asciiLower_def)

lemma elephant_examples:
  assumes "\<And>str. list_all (\<lambda>u. u < 128) str \<Longrightarrow> caseFold str = map asciiLower str"
  shows "guessMatches caseFold (units ''Elephant'') (units '' elephant '')
       \<and> \<not> guessMatches caseFold (units ''Elephant'') (units ''elephants'')"
proof -
  have a: "caseFold (units ''elephant'') = units ''elephant''"
    using assms [of "units ''elephant''"] ascii_units lower_examples by simp
  have b: "caseFold (units ''Elephant'') = units ''elephant''"
    using assms [of "units ''Elephant''"] ascii_units lower_examples by simp
  have c: "caseFold (units ''elephants'') = units ''elephants''"
    using assms [of "units ''elephants''"] ascii_units lower_examples by simp
  show ?thesis
    unfolding guessMatches_def trim_example trim_word trim_plural a b c
    using lower_examples by simp
qed

lemma submitChat_sends_trimmed:
  "sentChat (dispatch (now, SubmitChat) s) = sentChat s @ [txt]
     \<Longrightarrow> isGuessingTeam s \<and> txt = trim (chatInput_c s) \<and> txt \<noteq> []"
  by (auto simp: dispatch_def handleSendChat_def split: if_splits)

text \<open>
  Claim C5. A chat message that the game screen sends (the trimmed input, as of the last
  render, of a member of the guessing team) is marked \<open>is_correct_guess = true\<close> exactly when
  its trimmed, case-folded text equals the trimmed, case-folded active word, whatever the case
  folding; with a folding that takes A to Z to a to z on strings of code units below 128, the
  guess " elephant " matches the word "Elephant" and the guess "elephants" does not.
\<close>

theorem guess_marking:
  assumes "sentChat (dispatch (now, SubmitChat) s) = sentChat s @ [txt]"
    and "currentPlayer_g s = Some p" and "current_word (room_g s) = Some w"
    and "\<And>str. list_all (\<lambda>u. u < 128) str \<Longrightarrow> caseFold str = map asciiLower str"
  shows "is_correct_guess (sendChat_spec caseFold (room_g s) p txt)
           = (caseFold (trim txt) = caseFold (trim w))
       \<and> txt = trim (chatInput_c s)
       \<and> guessMatches caseFold (units ''Elephant'') (units '' elephant '')
       \<and> \<not> guessMatches caseFold (units ''Elephant'') (units ''elephants'')"
proof -
  from submitChat_sends_trimmed [OF assms(1)]
  have g: "isGuessingTeam s" and t: "txt = trim (chatInput_c s)"
    by simp_all
  from g assms(2) have "team p \<noteq> None \<and> team p \<noteq> drawing_team (room_g s)"
    by (auto simp: isGuessingTeam_def split: option.splits)
  then show ?thesis
    using assms(3) t elephant_examples [of caseFold, OF assms(4)]
    by (simp add: sendChat_spec_def guessMatches_def)
qed

theorem guess_marking_witness:
  "is_correct_guess (sendChat_spec (map asciiLower) (playRoom 60) guestP (units ''elephant''))
   \<and> sentChat (dispatch (5, SubmitChat) (gameScreen guestP (units '' elephant '')))
       = [units ''elephant'']
   \<and> \<not> is_correct_guess (sendChat_spec (map asciiLower) (playRoom 60) guestP (units ''elephants''))"
proof -
  have a: "sentChat (dispatch (5, SubmitChat) (gameScreen guestP (units '' elephant '')))
             = sentChat (gameScreen guestP (units '' elephant '')) @ [units ''elephant'']"
    by (simp add: dispatch_def gameScreen_def isGuessingTeam_def guestP_def playRoom_def
        handleSendChat_def trim_example) (simp add: units_def)
  have b: "sentChat (dispatch (5, SubmitChat) (gameScreen guestP (units ''elephants'')))
             = sentChat (gameScreen guestP (units ''elephants'')) @ [units ''elephants'']"
    by (simp add: dispatch_def gameScreen_def isGuessingTeam_def guestP_def playRoom_def
        handleSendChat_def trim_plural) (simp add: units_def)
  have c: "currentPlayer_g (gameScreen guestP i) = Some guestP" for i
    by (simp add: gameScreen_def)
  have d: "current_word (room_g (gameScreen guestP i)) = Some (units ''Elephant'')" for i
    by (simp add: gameScreen_def playRoom_def)
  have e: "list_all (\<lambda>u. u < 128) str \<Longrightarrow> map asciiLower str = map asciiLower str" for str
    by simp
  show ?thesis
    using guess_marking [OF a c d e] guess_marking [OF b c d e] a
    by (simp add: gameScreen_def trim_example trim_guess trim_word trim_plural lower_examples)
qed

section \<open>Scoring in the local game\<close>

text \<open>
  While the current team has a slot in \<open>scores\<close> holding a number, "got it" adds exactly 1 to
  that slot and to no other, passes the turn to the next team and adds 1 to the round number.
\<close>

lemma guess_correct_in_range:
  assumes "currentTeam g < length (scores g)" and "scores g ! currentTeam g = Num n"
  shows "scores (handleGuessCorrect g) = (scores g)[currentTeam g := Num (n + 1)]
       \<and> currentTeam (handleGuessCorrect g) = (currentTeam g + 1) mod teamCount (settings_l g)
       \<and> roundNumber (handleGuessCorrect g) = roundNumber g + 1"
  using assms by (simp add: handleGuessCorrect_def js_get_def js_set_def plus1_def)

text \<open>
  New game puts the turn back to the first team together with the scores; choosing a team
  count resets the scores and leaves the turn where it was.
\<close>

lemma resetGame_currentTeam: "currentTeam (resetGame g) = 0"
  by (simp add: resetGame_def)

lemma chooseTeamCount_currentTeam:
  "currentTeam (chooseTeamCount n g) = currentTeam g
   \<and> scores (chooseTeamCount n g) = replicate n (Num 0)"
  by (simp add: chooseTeamCount_def)

text \<open>
  Claim C6, at the input where the code departs from it. From the initial state: three teams
  are chosen, two rounds are played and guessed (the turn is now with the third team, index 2),
  then two teams are chosen, which leaves two score slots and the turn at index 2. The next
  "got it" reads a slot that does not exist: the scores become \<open>[0, 0, NaN]\<close>, so no team's score
  went up by 1.
\<close>

theorem guess_correct_after_team_change:
  "scores (presses [OpenSettings, ChooseTeams 3, BackToGame, StartRound ''cat'', GotIt,
                    StartRound ''dog'', GotIt, OpenSettings, ChooseTeams 2, BackToGame,
                    StartRound ''sun''] initialLocalGame) = [Num 0, Num 0]
   \<and> currentTeam (presses [OpenSettings, ChooseTeams 3, BackToGame, StartRound ''cat'', GotIt,
                    StartRound ''dog'', GotIt, OpenSettings, ChooseTeams 2, BackToGame,
                    StartRound ''sun''] initialLocalGame) = 2
   \<and> scores (presses [OpenSettings, ChooseTeams 3, BackToGame, StartRound ''cat'', GotIt,
                    StartRound ''dog'', GotIt, OpenSettings, ChooseTeams 2, BackToGame,
                    StartRound ''sun'', GotIt] initialLocalGame) = [Num 0, Num 0, NaN]"
  by code_simp

end
